theory Spec2Isabelle
  imports Complex_Main
begin

section \<open>The word game server (server.js)\<close>

text \<open>
  A shallow embedding of the Express server of the anagram game: the pure helpers
  (\<open>generateGameCode\<close>, \<open>canFormWord\<close>, \<open>calculatePoints\<close>), the round record that
  is kept as a JSON file per game code, and the six request handlers.

  Conventions of the model.
  \<^item> A JavaScript string is a \<open>string\<close>; one \<open>char\<close> stands for one character that
    occupies a single UTF-16 code unit, so that \<open>.length\<close> and \<open>for ... of\<close> count
    the same elements.
  \<^item> JavaScript numbers that hold counts, points, scores and millisecond time stamps
    are \<open>int\<close>; the values that occur stay far below \<open>2 ^ 53\<close>. The one division of
    the source (\<open>elapsed\<close>) is taken over \<open>real\<close>.
  \<^item> \<open>Math.random()\<close> and \<open>Date.now()\<close> are inputs of the functions that call them.
  \<^item> The fields \<open>playerName\<close>, \<open>playerId\<close> and \<open>word\<close> of a request body are strings.
  \<^item> A handler of \<open>server.js\<close> reads and writes its file synchronously and so runs to
    completion before the next one starts: a run of the server is a sequence of events.
\<close>

subsection \<open>Game codes\<close>

definition chars :: string where
  "chars = ''ABCDEFGHJKLMNPQRSTUVWXYZ23456789''"

text \<open>
  \<open>s[j]\<close> followed by \<open>+=\<close>: an index outside the string reads \<open>undefined\<close>, which the
  concatenation renders as the text \<open>undefined\<close>.
\<close>

definition charAt :: "string \<Rightarrow> int \<Rightarrow> string" where
  "charAt s j = (if 0 \<le> j \<and> j < int (length s) then [s ! nat j] else ''undefined'')"

text \<open>
  The loop \<open>for (let i = 0; i < 6; i++)\<close> of \<open>generateGameCode\<close>. The argument
  \<open>random\<close> gives the value of the \<open>i\<close>-th call of \<open>Math.random()\<close>.
\<close>

function generateGameCode_loop :: "(nat \<Rightarrow> real) \<Rightarrow> nat \<Rightarrow> string \<Rightarrow> string" where
  "generateGameCode_loop random i code =
     (if i < 6
      then generateGameCode_loop random (i + 1)
             (code @ charAt chars \<lfloor>random i * real (length chars)\<rfloor>)
      else code)"
  by pat_completeness auto
termination
  by (relation "measure (\<lambda>(random, i, code). 6 - i)") auto

definition generateGameCode :: "(nat \<Rightarrow> real) \<Rightarrow> string" where
  "generateGameCode random = generateGameCode_loop random 0 ''''"

subsection \<open>Forming a word from the letters\<close>

text \<open>
  \<open>letterCount\<close> is an object used as a dictionary from single characters to numbers.
  \<open>letterCount[letter] || 0\<close> is \<open>0\<close> for a missing key and for a stored \<open>0\<close>.
\<close>

type_synonym letterCount = "char \<rightharpoonup> int"

definition orZero :: "int option \<Rightarrow> int" where
  "orZero v = (case v of None \<Rightarrow> 0 | Some n \<Rightarrow> (if n = 0 then 0 else n))"

fun countLetters :: "string \<Rightarrow> letterCount \<Rightarrow> letterCount" where
  "countLetters [] letterCount = letterCount"
| "countLetters (letter # rest) letterCount =
     countLetters rest (letterCount(letter \<mapsto> orZero (letterCount letter) + 1))"

text \<open>
  The second loop: \<open>!letterCount[letter] || letterCount[letter] === 0\<close> holds for a missing
  key and for a stored \<open>0\<close>, and returns \<open>false\<close> at once; otherwise the count is
  decremented and the loop goes on.
\<close>

fun useLetters :: "string \<Rightarrow> letterCount \<Rightarrow> bool" where
  "useLetters [] letterCount = True"
| "useLetters (letter # rest) letterCount =
     (case letterCount letter of
        None \<Rightarrow> False
      | Some n \<Rightarrow>
          (if n = 0 then False
           else useLetters rest (letterCount(letter \<mapsto> n - 1))))"

definition canFormWord :: "string \<Rightarrow> string \<Rightarrow> bool" where
  "canFormWord word gameLetters = useLetters word (countLetters gameLetters Map.empty)"

subsection \<open>Points\<close>

definition calculatePoints :: "string \<Rightarrow> int" where
  "calculatePoints word =
     (let len = int (length word) in
      if len = 3 then 100
      else if len = 4 then 400
      else if len = 5 then 800
      else if len = 6 then 1400
      else if len = 7 then 1800
      else 2300 + (len - 8) * 500)"

subsection \<open>String built-ins\<close>

text \<open>
  \<open>String.prototype.trim\<close> and \<open>toUpperCase\<close> on ASCII text: the white space characters
  are tab, line feed, vertical tab, form feed, carriage return, space and the no-break
  space; the letters \<open>a\<close> to \<open>z\<close> are mapped to \<open>A\<close> to \<open>Z\<close>. Other characters
  are left as they are (the model does not cover the Unicode case mappings beyond ASCII).
  No theorem below depends on which characters are white space or how case is mapped.
\<close>

definition isWhiteSpace :: "char \<Rightarrow> bool" where
  "isWhiteSpace c = ((of_char c :: nat) \<in> set [9, 10, 11, 12, 13, 32, 160])"

definition trim :: "string \<Rightarrow> string" where
  "trim s = rev (dropWhile isWhiteSpace (rev (dropWhile isWhiteSpace s)))"

definition upperOf :: "char \<rightharpoonup> char" where
  "upperOf = map_of (zip ''abcdefghijklmnopqrstuvwxyz'' ''ABCDEFGHIJKLMNOPQRSTUVWXYZ'')"

definition toUpperCase :: "string \<Rightarrow> string" where
  "toUpperCase s = map (\<lambda>c. case upperOf c of Some u \<Rightarrow> u | None \<Rightarrow> c) s"

subsection \<open>The round and its players\<close>

record wordEntry =
  word :: string
  points :: int

record player =
  name :: string
  "words" :: "wordEntry list"
  score :: int

datatype status = Waiting | Active | Finished

text \<open>
  \<open>players\<close> is a plain object keyed by player identifier; \<open>startTime\<close> is \<open>null\<close>
  (here \<open>None\<close>) until the game is started.
\<close>

record game =
  gameCode :: string
  letters :: string
  players :: "string \<rightharpoonup> player"
  status :: status
  startTime :: "int option"
  duration :: int
  createdAt :: int

text \<open>
  What the process loads at start: the dictionary \<open>wordSet\<close>, its six-letter words, and
  the round duration in seconds.
\<close>

record config =
  wordSet :: "string set"
  sixLetterWords :: "string list"
  ROUND_DURATION :: int

text \<open>
  The body of a response, one constructor per shape of JSON object that the handlers
  send, and the response with its HTTP status. A handler that throws (an uncaught
  \<open>TypeError\<close>) sends no body of its own.
\<close>

datatype body =
    ErrorBody string
  | ErrorInvalid string
  | Created string string
  | GameState game
  | Joined string game
  | Invalid string
  | Valid int string
  | Success

datatype response = Reply nat body | TypeError

subsection \<open>Property lookup on the players object\<close>

text \<open>
  \<open>game.players[playerId]\<close> on an object parsed from JSON finds the player stored under
  that key, or else a member of \<open>Object.prototype\<close> when the key names one (a truthy value
  that is no player), or else \<open>undefined\<close>.
\<close>

datatype 'a property = Own 'a | Inherited | Missing

definition objectPrototype :: "string list" where
  "objectPrototype =
     [''constructor'', ''__defineGetter__'', ''__defineSetter__'', ''hasOwnProperty'',
      ''__lookupGetter__'', ''__lookupSetter__'', ''isPrototypeOf'',
      ''propertyIsEnumerable'', ''toString'', ''valueOf'', ''__proto__'',
      ''toLocaleString'']"

definition getProperty :: "(string \<rightharpoonup> 'a) \<Rightarrow> string \<Rightarrow> 'a property" where
  "getProperty obj key =
     (case obj key of
        Some v \<Rightarrow> Own v
      | None \<Rightarrow> (if key \<in> set objectPrototype then Inherited else Missing))"

subsection \<open>Array helpers\<close>

text \<open>\<open>findIndex\<close> gives the first index whose element satisfies the test; \<open>-1\<close> is \<open>None\<close>.\<close>

fun findIndex :: "('a \<Rightarrow> bool) \<Rightarrow> 'a list \<Rightarrow> nat option" where
  "findIndex test [] = None"
| "findIndex test (x # xs) =
     (if test x then Some 0 else map_option Suc (findIndex test xs))"

text \<open>\<open>xs.splice(i, 1)\<close> leaves \<open>xs\<close> without its element at index \<open>i\<close>.\<close>

definition splice1 :: "nat \<Rightarrow> 'a list \<Rightarrow> 'a list" where
  "splice1 i xs = take i xs @ drop (i + 1) xs"

subsection \<open>The handlers, on a loaded game\<close>

text \<open>
  Each handler body takes the game that \<open>loadGame\<close> returned and gives the response
  together with the game passed to \<open>saveGame\<close>, or \<open>None\<close> when the handler returns
  without saving.
\<close>

type_synonym outcome = "response \<times> game option"

text \<open>GET /api/games/:code, at time \<open>now\<close> (milliseconds).\<close>

definition getGame :: "int \<Rightarrow> game \<Rightarrow> outcome" where
  "getGame now game =
     (case startTime game of
        None \<Rightarrow> (Reply 200 (GameState game), None)
      | Some t \<Rightarrow>
          (if status game = Active \<and> t \<noteq> 0
           then (let elapsed = real_of_int (now - t) / 1000 in
                 if elapsed \<ge> real_of_int (duration game)
                 then (let game' = game\<lparr>status := Finished\<rparr>
                       in (Reply 200 (GameState game'), Some game'))
                 else (Reply 200 (GameState game), None))
           else (Reply 200 (GameState game), None)))"

text \<open>
  POST /api/games/:code/join. The new identifier is \<open>player_\<close> followed by the time stamp,
  an underscore and up to nine random base-36 digits; \<open>stamp\<close> stands for all that follows
  the prefix.
\<close>

definition joinGame :: "string \<Rightarrow> string \<Rightarrow> game \<Rightarrow> outcome" where
  "joinGame playerName stamp game =
     (if status game \<noteq> Waiting
      then (Reply 400 (ErrorBody ''Game already started''), None)
      else if playerName = [] \<or> length (trim playerName) = 0
      then (Reply 400 (ErrorBody ''Player name required''), None)
      else (let playerId = ''player_'' @ stamp;
                game' = game\<lparr>players := (players game)
                          (playerId \<mapsto> \<lparr>name = trim playerName, words = [], score = 0\<rparr>)\<rparr>
            in (Reply 200 (Joined playerId game'), Some game')))"

text \<open>POST /api/games/:code/start, at time \<open>now\<close>.\<close>

definition startGame :: "int \<Rightarrow> game \<Rightarrow> outcome" where
  "startGame now game =
     (if status game \<noteq> Waiting
      then (Reply 400 (ErrorBody ''Game already started''), None)
      else (let game' = game\<lparr>status := Active, startTime := Some now\<rparr>
            in (Reply 200 (GameState game'), Some game')))"

text \<open>
  POST /api/games/:code/words with the body \<open>{playerId, word: w}\<close>. The first three
  checks of the word do not touch the player; \<open>.words.some(...)\<close> throws when the looked-up
  value is an inherited member and not a player.
\<close>

definition addWord :: "config \<Rightarrow> string \<Rightarrow> string \<Rightarrow> game \<Rightarrow> outcome" where
  "addWord cfg playerId w game =
     (if status game \<noteq> Active
      then (Reply 400 (ErrorInvalid ''Game not active''), None)
      else if getProperty (players game) playerId = Missing
      then (Reply 400 (ErrorInvalid ''Player not found''), None)
      else (let wordUpper = toUpperCase (trim w) in
        if length wordUpper < 3
        then (Reply 200 (Invalid ''Word must be at least 3 letters''), None)
        else if \<not> canFormWord wordUpper (letters game)
        then (Reply 200 (Invalid ''Cannot form word from available letters''), None)
        else if wordUpper \<notin> wordSet cfg
        then (Reply 200 (Invalid ''Word not in dictionary''), None)
        else (case getProperty (players game) playerId of
            Own p \<Rightarrow>
              (if list_ex (\<lambda>e. word e = wordUpper) (words p)
               then (Reply 200 (Invalid ''Word already submitted''), None)
               else (let pts = calculatePoints wordUpper;
                         p' = p\<lparr>words := words p @ [\<lparr>word = wordUpper, points = pts\<rparr>],
                                score := score p + pts\<rparr>;
                         game' = game\<lparr>players := (players game)(playerId \<mapsto> p')\<rparr>
                     in (Reply 200 (Valid pts wordUpper), Some game')))
          | _ \<Rightarrow> (TypeError, None))))"

text \<open>DELETE /api/games/:code/words with the body \<open>{playerId, word: w}\<close>.\<close>

definition removeWord :: "string \<Rightarrow> string \<Rightarrow> game \<Rightarrow> outcome" where
  "removeWord playerId w game =
     (if status game \<noteq> Active
      then (Reply 400 (ErrorBody ''Game not active''), None)
      else (case getProperty (players game) playerId of
          Missing \<Rightarrow> (Reply 400 (ErrorBody ''Player not found''), None)
        | Inherited \<Rightarrow> (TypeError, None)
        | Own p \<Rightarrow>
            (let wordUpper = toUpperCase (trim w) in
             case findIndex (\<lambda>e. word e = wordUpper) (words p) of
               None \<Rightarrow> (Reply 200 Success, None)
             | Some wordIndex \<Rightarrow>
                 (let removedWord = words p ! wordIndex;
                      p' = p\<lparr>words := splice1 wordIndex (words p),
                             score := score p - points removedWord\<rparr>;
                      game' = game\<lparr>players := (players game)(playerId \<mapsto> p')\<rparr>
                  in (Reply 200 Success, Some game')))))"

subsection \<open>Operations on one round\<close>

datatype operation =
    Read int
  | Join string string
  | Start int
  | SubmitWord string string
  | RetractWord string string

definition perform :: "config \<Rightarrow> operation \<Rightarrow> game \<Rightarrow> outcome" where
  "perform cfg op game =
     (case op of
        Read now \<Rightarrow> getGame now game
      | Join playerName stamp \<Rightarrow> joinGame playerName stamp game
      | Start now \<Rightarrow> startGame now game
      | SubmitWord playerId w \<Rightarrow> addWord cfg playerId w game
      | RetractWord playerId w \<Rightarrow> removeWord playerId w game)"

text \<open>The stored game after an operation: the saved one, or the old one when nothing was saved.\<close>

definition after :: "config \<Rightarrow> operation \<Rightarrow> game \<Rightarrow> game" where
  "after cfg op game = (case snd (perform cfg op game) of None \<Rightarrow> game | Some game' \<Rightarrow> game')"

fun afterAll :: "config \<Rightarrow> operation list \<Rightarrow> game \<Rightarrow> game" where
  "afterAll cfg [] game = game"
| "afterAll cfg (op # ops) game = afterAll cfg ops (after cfg op game)"

subsection \<open>The store and the requests\<close>

text \<open>
  The directory \<open>games\<close>: one JSON file per game code. \<open>loadGame\<close> is the lookup,
  \<open>saveGame\<close> the update.
\<close>

type_synonym store = "string \<rightharpoonup> game"

text \<open>
  \<open>generateLetters\<close>: the fallback word, or the word drawn with \<open>r = Math.random()\<close> and
  rearranged by \<open>sort\<close> with a random comparator; \<open>shuffle\<close> stands for that
  rearrangement, whose result the language leaves to the implementation.
\<close>

definition generateLetters :: "config \<Rightarrow> real \<Rightarrow> (string \<Rightarrow> string) \<Rightarrow> string" where
  "generateLetters cfg r shuffle =
     (if length (sixLetterWords cfg) = 0 then ''MASTER''
      else shuffle (sixLetterWords cfg ! nat \<lfloor>r * real (length (sixLetterWords cfg))\<rfloor>))"

text \<open>POST /api/games: draws 0 to 5 of \<open>random\<close> make the code, draw 6 picks the word.\<close>

definition createGame ::
  "config \<Rightarrow> (nat \<Rightarrow> real) \<Rightarrow> (string \<Rightarrow> string) \<Rightarrow> int \<Rightarrow> store \<Rightarrow> response \<times> store" where
  "createGame cfg random shuffle now store =
     (let code = generateGameCode random;
          ls = generateLetters cfg (random 6) shuffle;
          gameData = \<lparr>gameCode = code, letters = ls, players = Map.empty,
                      status = Waiting, startTime = None,
                      duration = ROUND_DURATION cfg, createdAt = now\<rparr>
      in (Reply 200 (Created code ls), store(code \<mapsto> gameData)))"

text \<open>The requests that name a game: 404 when there is no file, else the handler body.\<close>

definition onGame :: "config \<Rightarrow> string \<Rightarrow> operation \<Rightarrow> store \<Rightarrow> response \<times> store" where
  "onGame cfg code op store =
     (case store code of
        None \<Rightarrow> (Reply 404 (ErrorBody ''Game not found''), store)
      | Some game \<Rightarrow>
          (case perform cfg op game of
             (res, None) \<Rightarrow> (res, store)
           | (res, Some game') \<Rightarrow> (res, store(code \<mapsto> game'))))"

text \<open>The hourly sweep: every game created more than 24 hours before \<open>now\<close> is deleted.\<close>

definition cleanup :: "int \<Rightarrow> store \<Rightarrow> store" where
  "cleanup now store =
     (\<lambda>code. case store code of
        None \<Rightarrow> None
      | Some game \<Rightarrow>
          (if now - createdAt game > 24 * 60 * 60 * 1000 then None else Some game))"

datatype event =
    PostGames "nat \<Rightarrow> real" "string \<Rightarrow> string" int
  | OnGame string operation
  | Sweep int

definition step :: "config \<Rightarrow> event \<Rightarrow> store \<Rightarrow> store" where
  "step cfg ev store =
     (case ev of
        PostGames random shuffle now \<Rightarrow> snd (createGame cfg random shuffle now store)
      | OnGame code op \<Rightarrow> snd (onGame cfg code op store)
      | Sweep now \<Rightarrow> cleanup now store)"

fun run :: "config \<Rightarrow> event list \<Rightarrow> store \<Rightarrow> store" where
  "run cfg [] store = store"
| "run cfg (ev # evs) store = run cfg evs (step cfg ev store)"

section \<open>Notions used in the statements\<close>

text \<open>Every stored letter count is at least zero.\<close>

definition nonneg :: "letterCount \<Rightarrow> bool" where
  "nonneg m = (\<forall>c n. m c = Some n \<longrightarrow> 0 \<le> n)"

text \<open>The order of the three statuses along the life of a round.\<close>

fun rank :: "status \<Rightarrow> nat" where
  "rank Waiting = 0"
| "rank Active = 1"
| "rank Finished = 2"

text \<open>
  The acceptance predicate as the specification words it: four checks in a fixed order,
  each with the reason given when it fails; the first failing check gives the reason.
\<close>

definition acceptanceChecks :: "config \<Rightarrow> game \<Rightarrow> player \<Rightarrow> string \<Rightarrow> (bool \<times> string) list" where
  "acceptanceChecks cfg game p wordUpper =
     [(3 \<le> length wordUpper, ''Word must be at least 3 letters''),
      (canFormWord wordUpper (letters game), ''Cannot form word from available letters''),
      (wordUpper \<in> wordSet cfg, ''Word not in dictionary''),
      (wordUpper \<notin> set (map word (words p)), ''Word already submitted'')]"

definition firstFailure :: "(bool \<times> string) list \<Rightarrow> string option" where
  "firstFailure checks = map_option snd (find (\<lambda>c. \<not> fst c) checks)"

text \<open>
  An event creates the code when it is a POST /api/games whose random draws give that
  code. A stored game is gone or finished when there is no file, or the file's status is
  finished.
\<close>

definition creates :: "event \<Rightarrow> string \<Rightarrow> bool" where
  "creates ev code =
     (case ev of
        PostGames random shuffle now \<Rightarrow> generateGameCode random = code
      | OnGame c op \<Rightarrow> False
      | Sweep now \<Rightarrow> False)"

definition goneOrFinished :: "game option \<Rightarrow> bool" where
  "goneOrFinished g = (case g of None \<Rightarrow> True | Some game \<Rightarrow> status game = Finished)"

text \<open>A property of every player of a game, and a property of every game of the store.\<close>

definition allPlayers :: "(player \<Rightarrow> bool) \<Rightarrow> game \<Rightarrow> bool" where
  "allPlayers P game = (\<forall>playerId p. players game playerId = Some p \<longrightarrow> P p)"

definition allGames :: "(game \<Rightarrow> bool) \<Rightarrow> store \<Rightarrow> bool" where
  "allGames Q store = (\<forall>code game. store code = Some game \<longrightarrow> Q game)"

definition scoreIsSum :: "player \<Rightarrow> bool" where
  "scoreIsSum p = (score p = sum_list (map points (words p)))"

definition wordsDistinct :: "player \<Rightarrow> bool" where
  "wordsDistinct p = distinct (map word (words p))"

text \<open>
  What a property of players needs in order to hold for ever: it holds of a player who
  has just joined, and it survives the append of \<open>addWord\<close> (made only for a word not yet
  in the list) and the removal of \<open>removeWord\<close>.
\<close>

definition playerInvariant :: "(player \<Rightarrow> bool) \<Rightarrow> bool" where
  "playerInvariant P =
     ((\<forall>n. P \<lparr>name = n, words = [], score = 0\<rparr>) \<and>
      (\<forall>p wordUpper pts. P p \<longrightarrow> wordUpper \<notin> set (map word (words p)) \<longrightarrow>
         P (p\<lparr>words := words p @ [\<lparr>word = wordUpper, points = pts\<rparr>], score := score p + pts\<rparr>)) \<and>
      (\<forall>p i. P p \<longrightarrow> i < length (words p) \<longrightarrow>
         P (p\<lparr>words := splice1 i (words p), score := score p - points (words p ! i)\<rparr>)))"

section \<open>A sample round\<close>

text \<open>
  A dictionary of three words, a run of the server from an empty directory that creates
  a game, lets Alice join, starts the round, accepts two words and takes one back, and
  the game that this run leaves in the store.
\<close>

definition exampleConfig :: config where
  "exampleConfig = \<lparr>wordSet = {''MAST'', ''TEAM'', ''MASTER''}, sixLetterWords = [], ROUND_DURATION = 10\<rparr>"

definition exampleEvents :: "event list" where
  "exampleEvents =
     [PostGames (\<lambda>k. real k / 7) id 500,
      OnGame ''AEKPUY'' (Join ''Alice '' ''1''),
      OnGame ''AEKPUY'' (Start 1000),
      OnGame ''AEKPUY'' (SubmitWord ''player_1'' ''mast''),
      OnGame ''AEKPUY'' (SubmitWord ''player_1'' '' Team''),
      OnGame ''AEKPUY'' (RetractWord ''player_1'' ''MAST'')]"

definition exampleGame :: game where
  "exampleGame =
     \<lparr>gameCode = ''AEKPUY'', letters = ''MASTER'',
      players = [''player_1'' \<mapsto> \<lparr>name = ''Alice'', words = [\<lparr>word = ''TEAM'', points = 400\<rparr>], score = 400\<rparr>],
      status = Active, startTime = Some 1000, duration = 10, createdAt = 500\<rparr>"

section \<open>Properties of the helpers\<close>

subsection \<open>Points\<close>

text \<open>
  Claim C1. \<open>calculatePoints\<close> is the piecewise function of the word's length: a word
  of length 3 scores 100, of length 4 scores 400, of length 5 scores 800, of length 6
  scores 1400, of length 7 scores 1800, and a word of length \<open>n \<ge> 8\<close> scores
  \<open>2300 + (n - 8) * 500\<close>.
\<close>

theorem calculatePoints_piecewise:
  "(length w = 3 \<longrightarrow> calculatePoints w = 100) \<and>
   (length w = 4 \<longrightarrow> calculatePoints w = 400) \<and>
   (length w = 5 \<longrightarrow> calculatePoints w = 800) \<and>
   (length w = 6 \<longrightarrow> calculatePoints w = 1400) \<and>
   (length w = 7 \<longrightarrow> calculatePoints w = 1800) \<and>
   (8 \<le> length w \<longrightarrow>
      calculatePoints w = 2300 + (int (length w) - 8) * 500)"
  by (simp add: calculatePoints_def Let_def)

theorem calculatePoints_piecewise_witness:
  "calculatePoints ''CAT'' = 100 \<and> calculatePoints ''MAST'' = 400 \<and>
   calculatePoints ''TABLE'' = 800 \<and> calculatePoints ''MASTER'' = 1400 \<and>
   calculatePoints ''MASTERS'' = 1800 \<and> calculatePoints ''MASTERING'' = 2800"
  using calculatePoints_piecewise [of "''CAT''"] calculatePoints_piecewise [of "''MAST''"]
    calculatePoints_piecewise [of "''TABLE''"] calculatePoints_piecewise [of "''MASTER''"]
    calculatePoints_piecewise [of "''MASTERS''"] calculatePoints_piecewise [of "''MASTERING''"]
  by simp

subsection \<open>Forming a word\<close>

lemma orZero_simps [simp]: "orZero None = 0" "orZero (Some n) = n"
  by (simp_all add: orZero_def)

lemma nonneg_empty: "nonneg Map.empty"
  by (simp add: nonneg_def)

lemma nonneg_upd: "nonneg m \<Longrightarrow> 0 \<le> k \<Longrightarrow> nonneg (m(c \<mapsto> k))"
  by (simp add: nonneg_def)

lemma nonneg_orZero: "nonneg m \<Longrightarrow> 0 \<le> orZero (m c)"
  by (cases "m c") (auto simp: nonneg_def)

lemma countLetters_nonneg: "nonneg m \<Longrightarrow> nonneg (countLetters ls m)"
proof (induction ls arbitrary: m)
  case Nil
  then show ?case by simp
next
  case (Cons l ls)
  from Cons.prems have "0 \<le> orZero (m l) + 1"
    using nonneg_orZero [of m l] by simp
  with Cons.prems have "nonneg (m(l \<mapsto> orZero (m l) + 1))"
    by (rule nonneg_upd)
  then have "nonneg (countLetters ls (m(l \<mapsto> orZero (m l) + 1)))"
    by (rule Cons.IH)
  then show ?case by simp
qed

lemma countLetters_count:
  "orZero (countLetters ls m c) = orZero (m c) + int (count_list ls c)"
  by (induction ls arbitrary: m) auto

lemma useLetters_iff:
  "nonneg m \<Longrightarrow> useLetters w m \<longleftrightarrow> (\<forall>c. int (count_list w c) \<le> orZero (m c))"
proof (induction w arbitrary: m)
  case Nil
  then show ?case by (auto simp: nonneg_orZero)
next
  case (Cons l w)
  show ?case
  proof (cases "m l")
    case None
    have "\<not> int (count_list (l # w) l) \<le> orZero (m l)"
      using None by simp
    then have "\<not> (\<forall>c. int (count_list (l # w) c) \<le> orZero (m c))"
      by blast
    then show ?thesis using None by simp
  next
    case (Some n)
    show ?thesis
    proof (cases "n = 0")
      case True
      have "\<not> int (count_list (l # w) l) \<le> orZero (m l)"
        using Some True by simp
      then have "\<not> (\<forall>c. int (count_list (l # w) c) \<le> orZero (m c))"
        by blast
      then show ?thesis using Some True by simp
    next
      case False
      from Cons.prems Some have "0 \<le> n" unfolding nonneg_def by blast
      with False have pos: "0 < n" by simp
      then have nn: "nonneg (m(l \<mapsto> n - 1))"
        using Cons.prems by (intro nonneg_upd) auto
      have "useLetters (l # w) m \<longleftrightarrow> useLetters w (m(l \<mapsto> n - 1))"
        using Some False by simp
      also have "\<dots> \<longleftrightarrow> (\<forall>c. int (count_list w c) \<le> orZero ((m(l \<mapsto> n - 1)) c))"
        by (rule Cons.IH [OF nn])
      also have "\<dots> \<longleftrightarrow> (\<forall>c. int (count_list (l # w) c) \<le> orZero (m c))"
      proof (intro iff_allI)
        fix c
        show "int (count_list w c) \<le> orZero ((m(l \<mapsto> n - 1)) c) \<longleftrightarrow>
              int (count_list (l # w) c) \<le> orZero (m c)"
          using Some by (cases "c = l") auto
      qed
      finally show ?thesis .
    qed
  qed
qed

text \<open>
  Claim C2. \<open>canFormWord word gameLetters\<close> is true exactly when every character occurs in
  \<open>word\<close> at most as often as it occurs in \<open>gameLetters\<close>.
\<close>

theorem canFormWord_iff_counts:
  "canFormWord w gameLetters \<longleftrightarrow>
     (\<forall>c. count_list w c \<le> count_list gameLetters c)"
proof -
  have "nonneg (countLetters gameLetters Map.empty)"
    by (rule countLetters_nonneg [OF nonneg_empty])
  then have "canFormWord w gameLetters \<longleftrightarrow>
      (\<forall>c. int (count_list w c) \<le> orZero (countLetters gameLetters Map.empty c))"
    unfolding canFormWord_def by (rule useLetters_iff)
  then show ?thesis
    by (simp add: countLetters_count)
qed

subsection \<open>Game codes\<close>

lemma chars_length: "length chars = 32"
  by (simp add: chars_def)

lemma charAt_chars:
  assumes "0 \<le> r" "r < 1"
  shows "\<exists>c \<in> set chars. charAt chars \<lfloor>r * real (length chars)\<rfloor> = [c]"
proof -
  define j where "j = \<lfloor>r * 32\<rfloor>"
  have lo: "0 \<le> j" using assms by (simp add: j_def)
  have "r * 32 < 32" using assms by simp
  then have hi: "j < 32" by (simp add: j_def floor_less_iff)
  have "nat j < 32"
    using lo hi by linarith
  then have "nat j < length chars"
    by (simp add: chars_length)
  then have mem: "chars ! nat j \<in> set chars" by (rule nth_mem)
  have "charAt chars j = [chars ! nat j]"
    using lo hi by (simp add: charAt_def chars_length)
  then have "charAt chars \<lfloor>r * real (length chars)\<rfloor> = [chars ! nat j]"
    by (simp add: j_def chars_length)
  with mem show ?thesis by blast
qed

lemma generateGameCode_loop_props:
  assumes "\<forall>k<6. 0 \<le> random k \<and> random k < 1" "i \<le> 6"
  shows "length (generateGameCode_loop random i code) = length code + (6 - i) \<and>
         set (generateGameCode_loop random i code) \<subseteq> set code \<union> set chars"
  using assms
proof (induction random i code rule: generateGameCode_loop.induct)
  case (1 random i code)
  show ?case
  proof (cases "i < 6")
    case True
    with "1.prems" obtain c where c: "c \<in> set chars"
      "charAt chars \<lfloor>random i * real (length chars)\<rfloor> = [c]"
      using charAt_chars [of "random i"] by auto
    from True have "i + 1 \<le> 6" by simp
    with "1.IH" [OF True "1.prems"(1)] have
      "length (generateGameCode_loop random (i + 1) (code @ [c])) =
         length (code @ [c]) + (6 - (i + 1)) \<and>
       set (generateGameCode_loop random (i + 1) (code @ [c])) \<subseteq>
         set (code @ [c]) \<union> set chars"
      by (simp add: c)
    moreover have "generateGameCode_loop random i code =
        generateGameCode_loop random (i + 1) (code @ [c])"
      using True c by (subst generateGameCode_loop.simps) simp
    ultimately show ?thesis using True c by auto
  next
    case False
    with "1.prems" have "i = 6" by simp
    then show ?thesis by (subst generateGameCode_loop.simps, subst generateGameCode_loop.simps) simp
  qed
qed

text \<open>
  Claim C7, as the code has it. With every draw of \<open>Math.random()\<close> in \<open>[0, 1)\<close>, the
  generated code has exactly 6 characters, each taken from the fixed alphabet \<open>chars\<close>;
  that alphabet has 32 distinct characters and contains none of \<open>0\<close>, \<open>O\<close>, \<open>1\<close>,
  \<open>I\<close>.
\<close>

theorem generateGameCode_alphabet:
  assumes "\<forall>k<6. 0 \<le> random k \<and> random k < 1"
  shows "length (generateGameCode random) = 6 \<and>
         set (generateGameCode random) \<subseteq> set chars \<and>
         card (set chars) = 32 \<and>
         set chars \<inter> {CHR ''0'', CHR ''O'', CHR ''1'', CHR ''I''} = {}"
proof -
  have "length (generateGameCode random) = 6 \<and> set (generateGameCode random) \<subseteq> set chars"
    using generateGameCode_loop_props [OF assms, of 0 "''''"]
    by (simp add: generateGameCode_def)
  moreover have "distinct chars" by (simp add: chars_def)
  then have "card (set chars) = 32"
    by (simp add: distinct_card chars_length)
  moreover have "set chars \<inter> {CHR ''0'', CHR ''O'', CHR ''1'', CHR ''I''} = {}"
    by (simp add: chars_def)
  ultimately show ?thesis by simp
qed

theorem generateGameCode_alphabet_witness:
  "generateGameCode (\<lambda>k. real k / 7) = ''AEKPUY'' \<and>
   length (generateGameCode (\<lambda>k. real k / 7)) = 6 \<and>
   set (generateGameCode (\<lambda>k. real k / 7)) \<subseteq> set chars"
proof -
  have h: "\<forall>k<6. (0::real) \<le> real k / 7 \<and> real k / 7 < 1" by simp
  have "generateGameCode (\<lambda>k. real k / 7) = ''AEKPUY''"
    by (simp add: generateGameCode_def charAt_def chars_def)
  then show ?thesis
    using h generateGameCode_alphabet [OF h] by simp
qed

text \<open>
  The alphabet of the code does not have 33 characters.
\<close>

theorem chars_not_33: "card (set chars) \<noteq> 33"
proof -
  have "distinct chars" by (simp add: chars_def)
  then have "card (set chars) = 32"
    by (simp add: distinct_card chars_length)
  then show ?thesis by simp
qed

section \<open>Properties of the round\<close>

subsection \<open>Array helpers\<close>

lemma findIndex_None: "findIndex test xs = None \<longleftrightarrow> (\<forall>x \<in> set xs. \<not> test x)"
  by (induction xs) auto

lemma findIndex_Some:
  "findIndex test xs = Some i \<Longrightarrow>
     i < length xs \<and> test (xs ! i) \<and> (\<forall>j<i. \<not> test (xs ! j))"
proof (induction xs arbitrary: i)
  case Nil
  then show ?case by simp
next
  case (Cons x xs)
  show ?case
  proof (cases "test x")
    case True
    with Cons.prems show ?thesis by simp
  next
    case False
    with Cons.prems obtain k where k: "findIndex test xs = Some k" "i = Suc k"
      by auto
    from Cons.IH [OF k(1)] have "k < length xs" "test (xs ! k)" "\<forall>j<k. \<not> test (xs ! j)"
      by simp_all
    then show ?thesis using False k(2) by (auto simp: less_Suc_eq_0_disj)
  qed
qed

lemma sum_list_splice1:
  "i < length xs \<Longrightarrow> sum_list (splice1 i xs) = sum_list xs - (xs ! i :: int)"
proof -
  assume "i < length xs"
  then have "xs = take i xs @ xs ! i # drop (Suc i) xs"
    by (rule id_take_nth_drop)
  then have "sum_list xs = sum_list (take i xs) + xs ! i + sum_list (drop (Suc i) xs)"
    by (metis sum_list.Cons sum_list.append add.assoc)
  then show ?thesis by (simp add: splice1_def)
qed

lemma map_splice1: "map f (splice1 i xs) = splice1 i (map f xs)"
  by (simp add: splice1_def take_map drop_map)

lemma distinct_splice1: "distinct xs \<Longrightarrow> distinct (splice1 i xs)"
proof -
  assume d: "distinct xs"
  have "set (take i xs) \<inter> set (drop (i + 1) xs) = {}"
    using d set_take_disj_set_drop_if_distinct [of xs i "i + 1"] by simp
  with d show ?thesis by (simp add: splice1_def)
qed

subsection \<open>Submitting a word\<close>

lemma example_status: "status exampleGame = Active"
  by (simp add: exampleGame_def)

lemma example_player:
  "players exampleGame ''player_1'' =
     Some \<lparr>name = ''Alice'', words = [\<lparr>word = ''TEAM'', points = 400\<rparr>], score = 400\<rparr>"
  by (simp add: exampleGame_def)

lemmas example_eval =
  exampleConfig_def firstFailure_def acceptanceChecks_def canFormWord_def toUpperCase_def
  upperOf_def trim_def isWhiteSpace_def calculatePoints_def Let_def

text \<open>
  Claim C3. For an active game and a player of it, the response to a submitted word is
  decided by the four checks on the trimmed, upper-cased word, taken in the order
  length, formability, dictionary, not yet submitted: the reason of the first check that
  fails is sent with status 200 and \<open>valid: false\<close>, and nothing is saved; when no check
  fails the word is accepted with its points and the player's list and score are saved.
\<close>

theorem addWord_first_failing_check:
  assumes "status game = Active" "players game playerId = Some p"
  shows "perform cfg (SubmitWord playerId w) game =
    (let wordUpper = toUpperCase (trim w) in
     case firstFailure (acceptanceChecks cfg game p wordUpper) of
       Some reason \<Rightarrow> (Reply 200 (Invalid reason), None)
     | None \<Rightarrow>
         (Reply 200 (Valid (calculatePoints wordUpper) wordUpper),
          Some (game\<lparr>players := (players game)(playerId \<mapsto>
             p\<lparr>words := words p @ [\<lparr>word = wordUpper, points = calculatePoints wordUpper\<rparr>],
               score := score p + calculatePoints wordUpper\<rparr>)\<rparr>)))"
  using assms
  by (auto simp: perform_def addWord_def getProperty_def firstFailure_def acceptanceChecks_def
      Let_def list_ex_iff image_iff)

theorem addWord_first_failing_check_witness:
  "perform exampleConfig (SubmitWord ''player_1'' '' ma'') exampleGame =
     (Reply 200 (Invalid ''Word must be at least 3 letters''), None) \<and>
   perform exampleConfig (SubmitWord ''player_1'' ''moss'') exampleGame =
     (Reply 200 (Invalid ''Cannot form word from available letters''), None) \<and>
   perform exampleConfig (SubmitWord ''player_1'' ''sea'') exampleGame =
     (Reply 200 (Invalid ''Word not in dictionary''), None) \<and>
   perform exampleConfig (SubmitWord ''player_1'' ''team '') exampleGame =
     (Reply 200 (Invalid ''Word already submitted''), None) \<and>
   fst (perform exampleConfig (SubmitWord ''player_1'' ''mast'') exampleGame) =
     Reply 200 (Valid 400 ''MAST'')"
  using addWord_first_failing_check [OF example_status example_player, of exampleConfig "'' ma''"]
    addWord_first_failing_check [OF example_status example_player, of exampleConfig "''moss''"]
    addWord_first_failing_check [OF example_status example_player, of exampleConfig "''sea''"]
    addWord_first_failing_check [OF example_status example_player, of exampleConfig "''team ''"]
    addWord_first_failing_check [OF example_status example_player, of exampleConfig "''mast''"]
  by (simp add: example_eval exampleGame_def)

text \<open>
  Claim C5. In an active game, a word of a player that passes the four checks is accepted
  by the first submission; the same submission made again is answered with the reason
  \<open>Word already submitted\<close>, saves nothing, and leaves the stored game, and so the score
  reached by the first submission, as it is.
\<close>

theorem addWord_twice_rejected:
  assumes "status game = Active" "players game playerId = Some p"
    and "3 \<le> length (toUpperCase (trim w))"
    and "canFormWord (toUpperCase (trim w)) (letters game)"
    and "toUpperCase (trim w) \<in> wordSet cfg"
    and "toUpperCase (trim w) \<notin> set (map word (words p))"
  shows "fst (perform cfg (SubmitWord playerId w) game) =
           Reply 200 (Valid (calculatePoints (toUpperCase (trim w))) (toUpperCase (trim w))) \<and>
         perform cfg (SubmitWord playerId w) (after cfg (SubmitWord playerId w) game) =
           (Reply 200 (Invalid ''Word already submitted''), None) \<and>
         after cfg (SubmitWord playerId w) (after cfg (SubmitWord playerId w) game) =
           after cfg (SubmitWord playerId w) game \<and>
         map_option score (players (after cfg (SubmitWord playerId w) game) playerId) =
           Some (score p + calculatePoints (toUpperCase (trim w)))"
  using assms
  by (auto simp: perform_def addWord_def getProperty_def after_def Let_def list_ex_iff image_iff)

theorem addWord_twice_rejected_witness:
  "fst (perform exampleConfig (SubmitWord ''player_1'' ''mast'') exampleGame) =
     Reply 200 (Valid 400 ''MAST'') \<and>
   perform exampleConfig (SubmitWord ''player_1'' ''mast'')
       (after exampleConfig (SubmitWord ''player_1'' ''mast'') exampleGame) =
     (Reply 200 (Invalid ''Word already submitted''), None) \<and>
   map_option score
       (players (after exampleConfig (SubmitWord ''player_1'' ''mast'') exampleGame) ''player_1'') =
     Some 800"
proof -
  have a: "3 \<le> length (toUpperCase (trim ''mast''))"
    by (simp add: example_eval)
  have b: "canFormWord (toUpperCase (trim ''mast'')) (letters exampleGame)"
    by (simp add: example_eval exampleGame_def)
  have c: "toUpperCase (trim ''mast'') \<in> wordSet exampleConfig"
    by (simp add: example_eval)
  have d: "toUpperCase (trim ''mast'') \<notin> set (map word (words
      \<lparr>name = ''Alice'', words = [\<lparr>word = ''TEAM'', points = 400\<rparr>], score = 400\<rparr>))"
    by (simp add: example_eval)
  show ?thesis
    using addWord_twice_rejected [OF example_status example_player a b c d]
    by (simp add: example_eval)
qed

subsection \<open>Operations in the wrong status\<close>

text \<open>
  Claim C8. Joining a game that is not waiting is answered with status 400 and
  \<open>Game already started\<close>, and submitting a word to a game that is not active with status
  400 and \<open>Game not active\<close>; neither saves anything, so the stored game and the whole store
  stay as they are. In particular a join that follows a start request fails, whatever the
  game was before.
\<close>

theorem join_and_submit_need_status:
  "(status game \<noteq> Waiting \<longrightarrow>
      perform cfg (Join playerName stamp) game =
        (Reply 400 (ErrorBody ''Game already started''), None)) \<and>
   (status game \<noteq> Active \<longrightarrow>
      perform cfg (SubmitWord playerId w) game =
        (Reply 400 (ErrorInvalid ''Game not active''), None)) \<and>
   perform cfg (Join playerName stamp) (after cfg (Start now) game) =
        (Reply 400 (ErrorBody ''Game already started''), None) \<and>
   (store code = Some game \<and> status game \<noteq> Waiting \<longrightarrow>
      onGame cfg code (Join playerName stamp) store =
        (Reply 400 (ErrorBody ''Game already started''), store)) \<and>
   (store code = Some game \<and> status game \<noteq> Active \<longrightarrow>
      onGame cfg code (SubmitWord playerId w) store =
        (Reply 400 (ErrorInvalid ''Game not active''), store))"
  by (simp add: perform_def joinGame_def addWord_def onGame_def after_def startGame_def Let_def)

theorem join_and_submit_need_status_witness:
  "perform exampleConfig (Join ''Bob'' ''2'') exampleGame =
     (Reply 400 (ErrorBody ''Game already started''), None) \<and>
   perform exampleConfig (SubmitWord ''player_1'' ''mast'') (exampleGame\<lparr>status := Waiting\<rparr>) =
     (Reply 400 (ErrorInvalid ''Game not active''), None) \<and>
   onGame exampleConfig ''AEKPUY'' (Join ''Bob'' ''2'') [''AEKPUY'' \<mapsto> exampleGame] =
     (Reply 400 (ErrorBody ''Game already started''), [''AEKPUY'' \<mapsto> exampleGame]) \<and>
   onGame exampleConfig ''AEKPUY'' (SubmitWord ''player_1'' ''mast'')
       [''AEKPUY'' \<mapsto> exampleGame\<lparr>status := Finished\<rparr>] =
     (Reply 400 (ErrorInvalid ''Game not active''),
      [''AEKPUY'' \<mapsto> exampleGame\<lparr>status := Finished\<rparr>])"
  using join_and_submit_need_status [of exampleGame exampleConfig "''Bob''" "''2''"
      "''player_1''" "''mast''" 0 "[''AEKPUY'' \<mapsto> exampleGame]" "''AEKPUY''"]
    join_and_submit_need_status [of "exampleGame\<lparr>status := Waiting\<rparr>" exampleConfig "''Bob''"
      "''2''" "''player_1''" "''mast''" 0 "[''AEKPUY'' \<mapsto> exampleGame]" "''AEKPUY''"]
    join_and_submit_need_status [of "exampleGame\<lparr>status := Finished\<rparr>" exampleConfig "''Bob''"
      "''2''" "''player_1''" "''mast''" 0 "[''AEKPUY'' \<mapsto> exampleGame\<lparr>status := Finished\<rparr>]"
      "''AEKPUY''"]
  by (simp add: example_status)

subsection \<open>Taking a word back\<close>

text \<open>
  Claim C9. In an active game, for a player of it: when the trimmed, upper-cased word is
  not in the player's list, \<open>removeWord\<close> answers \<open>success\<close> with status 200, saves nothing
  and the stored game is unchanged; when it is in the list, the first entry with that word
  is removed and the score goes down by the points recorded in that very entry.
\<close>

theorem removeWord_absent_or_recorded_points:
  assumes "status game = Active" "players game playerId = Some p"
  shows "(toUpperCase (trim w) \<notin> set (map word (words p)) \<longrightarrow>
            perform cfg (RetractWord playerId w) game = (Reply 200 Success, None) \<and>
            after cfg (RetractWord playerId w) game = game) \<and>
         (toUpperCase (trim w) \<in> set (map word (words p)) \<longrightarrow>
            (\<exists>i < length (words p).
               word (words p ! i) = toUpperCase (trim w) \<and>
               (\<forall>j<i. word (words p ! j) \<noteq> toUpperCase (trim w)) \<and>
               perform cfg (RetractWord playerId w) game =
                 (Reply 200 Success,
                  Some (game\<lparr>players := (players game)(playerId \<mapsto>
                    p\<lparr>words := take i (words p) @ drop (Suc i) (words p),
                      score := score p - points (words p ! i)\<rparr>)\<rparr>))))"
proof (intro conjI impI)
  assume "toUpperCase (trim w) \<notin> set (map word (words p))"
  then have "findIndex (\<lambda>e. word e = toUpperCase (trim w)) (words p) = None"
    by (auto simp: findIndex_None image_iff)
  then show "perform cfg (RetractWord playerId w) game = (Reply 200 Success, None)"
    using assms by (simp add: perform_def removeWord_def getProperty_def)
  then show "after cfg (RetractWord playerId w) game = game"
    by (simp add: after_def)
next
  assume "toUpperCase (trim w) \<in> set (map word (words p))"
  then have "findIndex (\<lambda>e. word e = toUpperCase (trim w)) (words p) \<noteq> None"
    by (auto simp: findIndex_None image_iff)
  then obtain i where i: "findIndex (\<lambda>e. word e = toUpperCase (trim w)) (words p) = Some i"
    by blast
  from findIndex_Some [OF i] have props: "i < length (words p)"
    "word (words p ! i) = toUpperCase (trim w)"
    "\<forall>j<i. word (words p ! j) \<noteq> toUpperCase (trim w)"
    by simp_all
  have "perform cfg (RetractWord playerId w) game =
      (Reply 200 Success,
       Some (game\<lparr>players := (players game)(playerId \<mapsto>
         p\<lparr>words := take i (words p) @ drop (Suc i) (words p),
           score := score p - points (words p ! i)\<rparr>)\<rparr>))"
    using assms i by (simp add: perform_def removeWord_def getProperty_def splice1_def Let_def)
  with props show "\<exists>i < length (words p).
               word (words p ! i) = toUpperCase (trim w) \<and>
               (\<forall>j<i. word (words p ! j) \<noteq> toUpperCase (trim w)) \<and>
               perform cfg (RetractWord playerId w) game =
                 (Reply 200 Success,
                  Some (game\<lparr>players := (players game)(playerId \<mapsto>
                    p\<lparr>words := take i (words p) @ drop (Suc i) (words p),
                      score := score p - points (words p ! i)\<rparr>)\<rparr>))"
    by blast
qed

theorem removeWord_absent_or_recorded_points_witness:
  "perform exampleConfig (RetractWord ''player_1'' ''mast'') exampleGame =
     (Reply 200 Success, None) \<and>
   after exampleConfig (RetractWord ''player_1'' ''mast'') exampleGame = exampleGame \<and>
   fst (perform exampleConfig (RetractWord ''player_1'' '' team'') exampleGame) =
     Reply 200 Success \<and>
   map_option (\<lambda>p. (words p, score p))
       (players (after exampleConfig (RetractWord ''player_1'' '' team'') exampleGame)
          ''player_1'') =
     Some ([], 0)"
proof -
  note inst = removeWord_absent_or_recorded_points [OF example_status example_player,
      of _ exampleConfig]
  have absent: "perform exampleConfig (RetractWord ''player_1'' ''mast'') exampleGame =
     (Reply 200 Success, None) \<and>
     after exampleConfig (RetractWord ''player_1'' ''mast'') exampleGame = exampleGame"
    using inst [of "''mast''"] by (simp add: example_eval)
  from inst [of "'' team''"] obtain i where i: "i < 1"
    and r: "perform exampleConfig (RetractWord ''player_1'' '' team'') exampleGame =
      (Reply 200 Success,
       Some (exampleGame\<lparr>players := (players exampleGame)(''player_1'' \<mapsto>
         \<lparr>name = ''Alice'', words = [\<lparr>word = ''TEAM'', points = 400\<rparr>], score = 400\<rparr>
           \<lparr>words := take i [\<lparr>word = ''TEAM'', points = 400\<rparr>] @
                      drop (Suc i) [\<lparr>word = ''TEAM'', points = 400\<rparr>],
            score := 400 - points ([\<lparr>word = ''TEAM'', points = 400\<rparr>] ! i)\<rparr>)\<rparr>))"
    by (auto simp: example_eval)
  from i have "i = 0" by simp
  with r have "fst (perform exampleConfig (RetractWord ''player_1'' '' team'') exampleGame) =
     Reply 200 Success \<and>
   map_option (\<lambda>p. (words p, score p))
       (players (after exampleConfig (RetractWord ''player_1'' '' team'') exampleGame)
          ''player_1'') =
     Some ([], 0)"
    by (simp add: after_def)
  with absent show ?thesis by simp
qed

subsection \<open>Properties of players that every request keeps\<close>

lemma allPlayers_upd:
  "allPlayers P game \<Longrightarrow> P p \<Longrightarrow> allPlayers P (game\<lparr>players := (players game)(k \<mapsto> p)\<rparr>)"
  by (simp add: allPlayers_def)

lemma allPlayers_status [simp]:
  "allPlayers P (game\<lparr>status := s\<rparr>) = allPlayers P game"
  "allPlayers P (game\<lparr>status := s, startTime := t\<rparr>) = allPlayers P game"
  by (simp_all add: allPlayers_def)

lemma getGame_allPlayers:
  "allPlayers P game \<Longrightarrow> snd (getGame now game) = Some game' \<Longrightarrow> allPlayers P game'"
  by (auto simp: getGame_def Let_def split: option.splits if_splits)

lemma joinGame_allPlayers:
  "playerInvariant P \<Longrightarrow> allPlayers P game \<Longrightarrow>
   snd (joinGame playerName stamp game) = Some game' \<Longrightarrow> allPlayers P game'"
  by (auto simp: joinGame_def Let_def playerInvariant_def intro!: allPlayers_upd split: if_splits)

lemma startGame_allPlayers:
  "allPlayers P game \<Longrightarrow> snd (startGame now game) = Some game' \<Longrightarrow> allPlayers P game'"
  by (auto simp: startGame_def Let_def split: if_splits)

lemma addWord_allPlayers:
  assumes "playerInvariant P" "allPlayers P game"
    and "snd (addWord cfg playerId w game) = Some game'"
  shows "allPlayers P game'"
proof -
  define wu where "wu = toUpperCase (trim w)"
  from assms(3) obtain p where p0: "players game playerId = Some p"
    "\<not> list_ex (\<lambda>e. word e = wu) (words p)"
    "game' = game\<lparr>players := (players game)(playerId \<mapsto>
       p\<lparr>words := words p @ [\<lparr>word = wu, points = calculatePoints wu\<rparr>],
         score := score p + calculatePoints wu\<rparr>)\<rparr>"
    by (auto simp: addWord_def getProperty_def Let_def wu_def
        split: if_splits option.splits property.splits)
  from p0(2) have "wu \<notin> set (map word (words p))"
    by (auto simp: list_ex_iff)
  note p = p0(1) this p0(3)
  from assms(2) p(1) have "P p" by (auto simp: allPlayers_def)
  with assms(1) p(2) have "P (p\<lparr>words := words p @ [\<lparr>word = wu, points = calculatePoints wu\<rparr>],
         score := score p + calculatePoints wu\<rparr>)"
    unfolding playerInvariant_def by blast
  with assms(2) show ?thesis unfolding p(3) by (rule allPlayers_upd)
qed

lemma removeWord_allPlayers:
  assumes "playerInvariant P" "allPlayers P game"
    and "snd (removeWord playerId w game) = Some game'"
  shows "allPlayers P game'"
proof -
  define wu where "wu = toUpperCase (trim w)"
  from assms(3) obtain p i where p: "players game playerId = Some p"
    "findIndex (\<lambda>e. word e = wu) (words p) = Some i"
    "game' = game\<lparr>players := (players game)(playerId \<mapsto>
       p\<lparr>words := splice1 i (words p), score := score p - points (words p ! i)\<rparr>)\<rparr>"
    by (auto simp: removeWord_def getProperty_def Let_def wu_def
        split: if_splits option.splits property.splits)
  from assms(2) p(1) have "P p" by (auto simp: allPlayers_def)
  moreover from findIndex_Some [OF p(2)] have "i < length (words p)" by simp
  ultimately have "P (p\<lparr>words := splice1 i (words p), score := score p - points (words p ! i)\<rparr>)"
    using assms(1) unfolding playerInvariant_def by blast
  with assms(2) show ?thesis unfolding p(3) by (rule allPlayers_upd)
qed

lemma perform_allPlayers:
  assumes "playerInvariant P" "allPlayers P game"
    and "snd (perform cfg op game) = Some game'"
  shows "allPlayers P game'"
proof (cases op)
  case (Read now)
  with assms show ?thesis by (auto simp: perform_def dest: getGame_allPlayers)
next
  case (Join playerName stamp)
  with assms show ?thesis by (auto simp: perform_def dest: joinGame_allPlayers)
next
  case (Start now)
  with assms show ?thesis by (auto simp: perform_def dest: startGame_allPlayers)
next
  case (SubmitWord playerId w)
  with assms show ?thesis by (auto simp: perform_def dest: addWord_allPlayers)
next
  case (RetractWord playerId w)
  with assms show ?thesis by (auto simp: perform_def dest: removeWord_allPlayers)
qed

lemma after_allPlayers:
  "playerInvariant P \<Longrightarrow> allPlayers P game \<Longrightarrow> allPlayers P (after cfg op game)"
  by (auto simp: after_def split: option.splits dest: perform_allPlayers)

lemma afterAll_allPlayers:
  "playerInvariant P \<Longrightarrow> allPlayers P game \<Longrightarrow> allPlayers P (afterAll cfg ops game)"
  by (induction ops arbitrary: game) (auto intro: after_allPlayers)

lemma onGame_store:
  "snd (onGame cfg code op store) =
     (case store code of None \<Rightarrow> store | Some game \<Rightarrow> store(code \<mapsto> after cfg op game))"
  by (auto simp: onGame_def after_def split: option.splits prod.splits)

lemma step_allGames:
  assumes "playerInvariant P" "allGames (allPlayers P) store"
  shows "allGames (allPlayers P) (step cfg ev store)"
proof (cases ev)
  case (PostGames random shuffle now)
  have "allPlayers P \<lparr>gameCode = c, letters = l, players = Map.empty, status = Waiting,
      startTime = None, duration = d, createdAt = now\<rparr>" for c l d
    by (simp add: allPlayers_def)
  with assms(2) show ?thesis
    by (auto simp: PostGames step_def createGame_def Let_def allGames_def)
next
  case (OnGame code op)
  show ?thesis
  proof (cases "store code")
    case None
    with assms(2) show ?thesis by (simp add: OnGame step_def onGame_store)
  next
    case (Some game)
    with assms(2) have "allPlayers P game" by (auto simp: allGames_def)
    with assms(1) have "allPlayers P (after cfg op game)" by (rule after_allPlayers)
    with assms(2) show ?thesis
      by (auto simp: OnGame step_def onGame_store Some allGames_def)
  qed
next
  case (Sweep now)
  with assms(2) show ?thesis
    by (auto simp: step_def cleanup_def allGames_def split: option.splits if_splits)
qed

lemma run_append: "run cfg (evs @ evs') store = run cfg evs' (run cfg evs store)"
  by (induction evs arbitrary: store) auto

lemma run_allGames:
  "playerInvariant P \<Longrightarrow> allGames (allPlayers P) store \<Longrightarrow>
   allGames (allPlayers P) (run cfg evs store)"
  by (induction evs arbitrary: store) (auto intro: step_allGames)

lemma scoreIsSum_invariant: "playerInvariant scoreIsSum"
  by (auto simp: playerInvariant_def scoreIsSum_def map_splice1 sum_list_splice1)

lemma wordsDistinct_invariant: "playerInvariant wordsDistinct"
  by (auto simp: playerInvariant_def wordsDistinct_def map_splice1 distinct_splice1)


lemma generateGameCode_example: "generateGameCode (\<lambda>k. real k / 7) = ''AEKPUY''"
  by (simp add: generateGameCode_def charAt_def chars_def)

lemma run_example: "run exampleConfig exampleEvents Map.empty = [''AEKPUY'' \<mapsto> exampleGame]"
  by (simp add: exampleEvents_def exampleConfig_def exampleGame_def step_def createGame_def
      generateGameCode_example generateLetters_def onGame_def perform_def joinGame_def
      startGame_def addWord_def removeWord_def getProperty_def objectPrototype_def
      trim_def isWhiteSpace_def toUpperCase_def upperOf_def canFormWord_def
      calculatePoints_def splice1_def Let_def)

text \<open>
  Claim C4. If in every game of the store every player's score is the sum of the points
  of the player's words, then the same holds after any sequence of requests and sweeps;
  so it holds for every round the server creates and every player who joins it, after
  any sequence of submissions and retractions.
\<close>

theorem score_is_sum_of_points:
  assumes "\<forall>code game playerId p. store code = Some game \<longrightarrow>
             players game playerId = Some p \<longrightarrow> score p = sum_list (map points (words p))"
  shows "\<forall>code game playerId p. run cfg evs store code = Some game \<longrightarrow>
             players game playerId = Some p \<longrightarrow> score p = sum_list (map points (words p))"
proof -
  from assms have "allGames (allPlayers scoreIsSum) store"
    by (simp add: allGames_def allPlayers_def scoreIsSum_def)
  with scoreIsSum_invariant have "allGames (allPlayers scoreIsSum) (run cfg evs store)"
    by (rule run_allGames)
  then show ?thesis
    by (simp add: allGames_def allPlayers_def scoreIsSum_def)
qed

theorem score_is_sum_of_points_witness:
  "run exampleConfig exampleEvents Map.empty ''AEKPUY'' = Some exampleGame \<and>
   map_option score (players exampleGame ''player_1'') = Some 400 \<and>
   map_option (\<lambda>p. sum_list (map points (words p))) (players exampleGame ''player_1'') = Some 400"
proof -
  have e: "\<forall>code game playerId p. (Map.empty :: store) code = Some game \<longrightarrow>
             players game playerId = Some p \<longrightarrow> score p = sum_list (map points (words p))"
    by simp
  have r: "run exampleConfig exampleEvents Map.empty ''AEKPUY'' = Some exampleGame"
    by (simp add: run_example)
  obtain p where p: "players exampleGame ''player_1'' = Some p" "score p = 400"
    by (simp add: exampleGame_def)
  from score_is_sum_of_points [OF e, of exampleConfig exampleEvents] r p(1)
  have "score p = sum_list (map points (words p))" by blast
  with r p show ?thesis by simp
qed

text \<open>
  Claim C10. If in every game of the store the words of every player's list are pairwise
  distinct, then the same holds after any sequence of requests and sweeps; so no word
  ever appears twice in the list of a player of a round the server created.
\<close>

theorem words_pairwise_distinct:
  assumes "\<forall>code game playerId p. store code = Some game \<longrightarrow>
             players game playerId = Some p \<longrightarrow> distinct (map word (words p))"
  shows "\<forall>code game playerId p. run cfg evs store code = Some game \<longrightarrow>
             players game playerId = Some p \<longrightarrow> distinct (map word (words p))"
proof -
  from assms have "allGames (allPlayers wordsDistinct) store"
    by (simp add: allGames_def allPlayers_def wordsDistinct_def)
  with wordsDistinct_invariant have "allGames (allPlayers wordsDistinct) (run cfg evs store)"
    by (rule run_allGames)
  then show ?thesis
    by (simp add: allGames_def allPlayers_def wordsDistinct_def)
qed

theorem words_pairwise_distinct_witness:
  "run exampleConfig (exampleEvents @ [OnGame ''AEKPUY'' (SubmitWord ''player_1'' ''Team'')])
      Map.empty ''AEKPUY'' = Some exampleGame \<and>
   map_option (\<lambda>p. distinct (map word (words p))) (players exampleGame ''player_1'') = Some True"
proof -
  have e: "\<forall>code game playerId p. (Map.empty :: store) code = Some game \<longrightarrow>
             players game playerId = Some p \<longrightarrow> distinct (map word (words p))"
    by simp
  have "run exampleConfig (exampleEvents @ [OnGame ''AEKPUY'' (SubmitWord ''player_1'' ''Team'')])
      Map.empty = step exampleConfig (OnGame ''AEKPUY'' (SubmitWord ''player_1'' ''Team''))
        (run exampleConfig exampleEvents Map.empty)"
    by (simp add: run_append)
  also have "\<dots> = [''AEKPUY'' \<mapsto> exampleGame]"
    unfolding run_example
    by (simp add: exampleConfig_def exampleGame_def step_def onGame_def perform_def
        addWord_def getProperty_def trim_def isWhiteSpace_def toUpperCase_def upperOf_def
        canFormWord_def Let_def)
  finally have r: "run exampleConfig
      (exampleEvents @ [OnGame ''AEKPUY'' (SubmitWord ''player_1'' ''Team'')])
      Map.empty ''AEKPUY'' = Some exampleGame"
    by simp
  obtain p where p: "players exampleGame ''player_1'' = Some p"
    by (simp add: exampleGame_def)
  from words_pairwise_distinct [OF e, of exampleConfig
      "exampleEvents @ [OnGame ''AEKPUY'' (SubmitWord ''player_1'' ''Team'')]"] r p
  have "distinct (map word (words p))" by blast
  with r p show ?thesis by simp
qed

subsection \<open>The status only moves forward\<close>

lemma status_after:
  "status (after cfg op game) = status game \<or>
   (status game = Waiting \<and> status (after cfg op game) = Active) \<or>
   (status game = Active \<and> status (after cfg op game) = Finished)"
  by (cases op)
     (auto simp: after_def perform_def getGame_def joinGame_def startGame_def addWord_def
        removeWord_def Let_def split: option.splits if_splits property.splits)

lemma rank_after: "rank (status game) \<le> rank (status (after cfg op game))"
  using status_after [of cfg op game] by auto

lemma rank_afterAll: "rank (status game) \<le> rank (status (afterAll cfg ops game))"
proof (induction ops arbitrary: game)
  case Nil
  show ?case by simp
next
  case (Cons op ops)
  have "rank (status game) \<le> rank (status (after cfg op game))" by (rule rank_after)
  also have "\<dots> \<le> rank (status (afterAll cfg ops (after cfg op game)))" by (rule Cons.IH)
  finally show ?case by simp
qed

lemma rank_Finished: "rank s \<ge> 2 \<longleftrightarrow> s = Finished"
  by (cases s) auto

lemma finished_afterAll: "status game = Finished \<Longrightarrow> status (afterAll cfg ops game) = Finished"
  using rank_afterAll [of game cfg ops] by (simp flip: rank_Finished)

lemma getGame_Finished:
  "status game = Finished \<Longrightarrow> getGame now game = (Reply 200 (GameState game), None)"
  by (simp add: getGame_def split: option.splits)

lemma finished_after: "status game = Finished \<Longrightarrow> status (after cfg op game) = Finished"
  using finished_afterAll [of game cfg "[op]"] by simp

lemma step_goneOrFinished:
  assumes "goneOrFinished (store code)" "\<not> creates ev code"
  shows "goneOrFinished (step cfg ev store code)"
proof (cases ev)
  case (PostGames random shuffle now)
  with assms show ?thesis
    by (simp add: step_def createGame_def creates_def Let_def)
next
  case (OnGame c op)
  show ?thesis
  proof (cases "store c")
    case None
    with assms(1) show ?thesis by (simp add: OnGame step_def onGame_store)
  next
    case (Some game)
    show ?thesis
    proof (cases "c = code")
      case True
      with Some have sc: "store code = Some game" by simp
      with assms(1) have "status game = Finished" by (simp add: goneOrFinished_def)
      then have "status (after cfg op game) = Finished" by (rule finished_after)
      then show ?thesis by (simp add: OnGame step_def onGame_store sc True goneOrFinished_def)
    next
      case False
      with assms(1) show ?thesis by (simp add: OnGame step_def onGame_store Some)
    qed
  qed
next
  case (Sweep now)
  with assms(1) show ?thesis
    by (auto simp: step_def cleanup_def goneOrFinished_def split: option.splits)
qed

lemma run_goneOrFinished:
  "goneOrFinished (store code) \<Longrightarrow> \<not> list_ex (\<lambda>ev. creates ev code) evs \<Longrightarrow>
   goneOrFinished (run cfg evs store code)"
  by (induction evs arbitrary: store) (auto intro: step_goneOrFinished)

text \<open>
  Claim C6. A read of an active round whose elapsed time has reached the duration (the
  start time stamp being a nonzero number, as every \<open>Date.now()\<close> is) sends the round as
  finished and saves it so. From a finished round, every sequence of operations leaves the
  status finished, and every later read sends the round with status finished and saves
  nothing. Each single operation keeps the status or moves it from waiting to active or
  from active to finished, so the status never goes back. In the store, under any sequence
  of requests and sweeps none of which creates a new game under the same code, a finished
  game stays finished until the sweep deletes it.
\<close>

theorem status_forward_only:
  "(status game = Active \<and> startTime game = Some t \<and> t \<noteq> 0 \<and>
      real_of_int (duration game) \<le> real_of_int (now - t) / 1000 \<longrightarrow>
      perform cfg (Read now) game =
        (Reply 200 (GameState (game\<lparr>status := Finished\<rparr>)), Some (game\<lparr>status := Finished\<rparr>))) \<and>
   (status game = Finished \<longrightarrow>
      status (afterAll cfg ops game) = Finished \<and>
      perform cfg (Read now) (afterAll cfg ops game) =
        (Reply 200 (GameState (afterAll cfg ops game)), None)) \<and>
   (status (after cfg op game) = status game \<or>
    (status game = Waiting \<and> status (after cfg op game) = Active) \<or>
    (status game = Active \<and> status (after cfg op game) = Finished)) \<and>
   rank (status game) \<le> rank (status (afterAll cfg ops game)) \<and>
   (store code = Some game \<and> status game = Finished \<and>
      \<not> list_ex (\<lambda>ev. creates ev code) evs \<longrightarrow>
      goneOrFinished (run cfg evs store code))"
proof (intro conjI impI)
  assume "status game = Active \<and> startTime game = Some t \<and> t \<noteq> 0 \<and>
      real_of_int (duration game) \<le> real_of_int (now - t) / 1000"
  then show "perform cfg (Read now) game =
        (Reply 200 (GameState (game\<lparr>status := Finished\<rparr>)), Some (game\<lparr>status := Finished\<rparr>))"
    by (simp add: perform_def getGame_def Let_def)
next
  assume "status game = Finished"
  then show fin: "status (afterAll cfg ops game) = Finished" by (rule finished_afterAll)
  then show "perform cfg (Read now) (afterAll cfg ops game) =
        (Reply 200 (GameState (afterAll cfg ops game)), None)"
    by (simp add: perform_def getGame_Finished)
next
  show "status (after cfg op game) = status game \<or>
    (status game = Waiting \<and> status (after cfg op game) = Active) \<or>
    (status game = Active \<and> status (after cfg op game) = Finished)"
    by (rule status_after)
next
  show "rank (status game) \<le> rank (status (afterAll cfg ops game))" by (rule rank_afterAll)
next
  assume a: "store code = Some game \<and> status game = Finished \<and>
      \<not> list_ex (\<lambda>ev. creates ev code) evs"
  then have "goneOrFinished (store code)" by (simp add: goneOrFinished_def)
  with a show "goneOrFinished (run cfg evs store code)"
    by (intro run_goneOrFinished) simp_all
qed

theorem status_forward_only_witness:
  "perform exampleConfig (Read 11000) exampleGame =
     (Reply 200 (GameState (exampleGame\<lparr>status := Finished\<rparr>)),
      Some (exampleGame\<lparr>status := Finished\<rparr>)) \<and>
   status (afterAll exampleConfig
       [Read 11000, Read 500, Start 12000, Join ''Bob'' ''2'', SubmitWord ''player_1'' ''mast'',
        RetractWord ''player_1'' ''team'', Read 20000] exampleGame) = Finished \<and>
   goneOrFinished (run exampleConfig
       [OnGame ''AEKPUY'' (Start 12000), PostGames (\<lambda>k. 0) id 13000, Sweep 14000,
        OnGame ''AEKPUY'' (Read 500)]
       [''AEKPUY'' \<mapsto> exampleGame\<lparr>status := Finished\<rparr>] ''AEKPUY'')"
proof -
  have first: "perform exampleConfig (Read 11000) exampleGame =
     (Reply 200 (GameState (exampleGame\<lparr>status := Finished\<rparr>)),
      Some (exampleGame\<lparr>status := Finished\<rparr>))"
    using status_forward_only [of exampleGame 1000 11000 exampleConfig "[]" "Read 0"
        Map.empty "[]" "[]"]
    by (simp add: exampleGame_def)
  then have "after exampleConfig (Read 11000) exampleGame = exampleGame\<lparr>status := Finished\<rparr>"
    by (simp add: after_def)
  moreover have c: "generateGameCode (\<lambda>k. 0) = ''AAAAAA''"
    by (simp add: generateGameCode_def charAt_def chars_def)
  have "status (afterAll exampleConfig
       [Read 500, Start 12000, Join ''Bob'' ''2'', SubmitWord ''player_1'' ''mast'',
        RetractWord ''player_1'' ''team'', Read 20000] (exampleGame\<lparr>status := Finished\<rparr>)) = Finished
      \<and> goneOrFinished (run exampleConfig
       [OnGame ''AEKPUY'' (Start 12000), PostGames (\<lambda>k. 0) id 13000, Sweep 14000,
        OnGame ''AEKPUY'' (Read 500)]
       [''AEKPUY'' \<mapsto> exampleGame\<lparr>status := Finished\<rparr>] ''AEKPUY'')"
    using status_forward_only [of "exampleGame\<lparr>status := Finished\<rparr>" 1000 11000 exampleConfig
        "[Read 500, Start 12000, Join ''Bob'' ''2'', SubmitWord ''player_1'' ''mast'',
          RetractWord ''player_1'' ''team'', Read 20000]" "Read 0"
        "[''AEKPUY'' \<mapsto> exampleGame\<lparr>status := Finished\<rparr>]" "''AEKPUY''"
        "[OnGame ''AEKPUY'' (Start 12000), PostGames (\<lambda>k. 0) id 13000, Sweep 14000,
          OnGame ''AEKPUY'' (Read 500)]"]
    by (simp add: creates_def c)
  ultimately show ?thesis using first by simp
qed

end
